theory Spec2Isabelle
  imports Complex_Main "HOL-Library.Word"
begin

unbundle bit_operations_syntax

section \<open>The cube generator \<^verbatim>\<open>generate_gltf_bin.py\<close>\<close>

text \<open>
  The script defines four constant lists, packs them element by element with
  \<^verbatim>\<open>struct.pack\<close> into one byte string, writes it to \<^verbatim>\<open>models/scene.bin\<close> and prints
  two lines. The embedding follows that order: Python floats, the constants, the packing,
  the file write.
\<close>

subsection \<open>Python floats\<close>

text \<open>
  A Python float is an IEEE-754 binary64 number. A finite one is kept as a pair \<open>(m, q)\<close>
  of integers standing for \<open>m * 2 ^ q\<close>; \<open>fval\<close> reads its exact value. The source has
  no infinity, no NaN and no negative zero, and the pair cannot express them.
\<close>

type_synonym pyfloat = "int \<times> int"

definition pow2 :: "int \<Rightarrow> rat" where
  "pow2 k = (if 0 \<le> k then 2 ^ nat k else 1 / 2 ^ nat (- k))"

definition fval :: "pyfloat \<Rightarrow> rat" where
  "fval x = of_int (fst x) * pow2 (snd x)"

text \<open>The number of binary digits of a positive integer (Python's \<^verbatim>\<open>int.bit_length\<close>).\<close>

function bit_length :: "int \<Rightarrow> int" where
  "bit_length n = (if n \<le> 0 then 0 else 1 + bit_length (n div 2))"
  by pat_completeness auto
termination
  by (relation "measure nat") auto

declare bit_length.simps [simp del]

text \<open>\<open>n / d\<close> rounded to the nearest integer, ties to the even one.\<close>

definition round_half_even :: "int \<Rightarrow> int \<Rightarrow> int" where
  "round_half_even n d =
     (let q = n div d; r = n mod d in
      if 2 * r < d then q
      else if d < 2 * r then q + 1
      else if even q then q else q + 1)"

text \<open>The fraction \<open>n / d\<close> multiplied by \<open>2 ^ k\<close>, for \<open>k\<close> of either sign.\<close>

definition scale2 :: "int \<Rightarrow> int \<Rightarrow> int \<Rightarrow> int \<times> int" where
  "scale2 n d k = (if 0 \<le> k then (n * 2 ^ nat k, d) else (n, d * 2 ^ nat (- k)))"

text \<open>The binary exponent \<open>e\<close> of a positive fraction: \<open>2 ^ e \<le> n / d < 2 ^ (e + 1)\<close>.\<close>

definition ilog2 :: "int \<Rightarrow> int \<Rightarrow> int" where
  "ilog2 n d =
     (let e = bit_length n - bit_length d;
          (a, b) = scale2 n d (- e)
      in if b \<le> a then e else e - 1)"

text \<open>
  IEEE-754 rounding to nearest, ties to even, of the positive fraction \<open>n / d\<close> to a
  format with \<open>p\<close> significant bits and least normal exponent \<open>emin\<close> (below it the
  spacing stays that of the subnormals). The result is \<open>(m, q)\<close> with \<open>m \<le> 2 ^ p\<close>.
\<close>

definition round_sig :: "int \<Rightarrow> int \<Rightarrow> int \<Rightarrow> int \<Rightarrow> pyfloat" where
  "round_sig p emin n d =
     (let q = max (ilog2 n d) emin - (p - 1);
          (a, b) = scale2 n d (- q)
      in (round_half_even a b, q))"

text \<open>
  A decimal float literal with \<open>k\<close> digits after the point: \<open>dec n k\<close> is the binary64
  number nearest to \<open>n / 10 ^ k\<close>, so
  \<^verbatim>\<open>-0.577\<close> is \<open>dec (- 577) 3\<close> and \<^verbatim>\<open>1.0\<close> is \<open>dec 10 1\<close>.
\<close>

definition dec :: "int \<Rightarrow> int \<Rightarrow> pyfloat" where
  "dec n k =
     (if n = 0 then (0, 0)
      else let (m, q) = round_sig 53 (- 1022) \<bar>n\<bar> (10 ^ nat k) in (sgn n * m, q))"

subsection \<open>The four constant arrays\<close>

definition positions :: "pyfloat list" where
  "positions =
    [dec (- 10) 1, dec (- 10) 1, dec (- 10) 1,
     dec 10 1, dec (- 10) 1, dec (- 10) 1,
     dec 10 1, dec 10 1, dec (- 10) 1,
     dec (- 10) 1, dec 10 1, dec (- 10) 1,
     dec (- 10) 1, dec (- 10) 1, dec 10 1,
     dec 10 1, dec (- 10) 1, dec 10 1,
     dec 10 1, dec 10 1, dec 10 1,
     dec (- 10) 1, dec 10 1, dec 10 1]"

definition normals :: "pyfloat list" where
  "normals =
    [dec (- 577) 3, dec (- 577) 3, dec (- 577) 3,
     dec 577 3, dec (- 577) 3, dec (- 577) 3,
     dec 577 3, dec 577 3, dec (- 577) 3,
     dec (- 577) 3, dec 577 3, dec (- 577) 3,
     dec (- 577) 3, dec (- 577) 3, dec 577 3,
     dec 577 3, dec (- 577) 3, dec 577 3,
     dec 577 3, dec 577 3, dec 577 3,
     dec (- 577) 3, dec 577 3, dec 577 3]"

definition colors :: "pyfloat list" where
  "colors =
    [dec 10 1, dec 0 1, dec 0 1,
     dec 0 1, dec 10 1, dec 0 1,
     dec 0 1, dec 0 1, dec 10 1,
     dec 10 1, dec 10 1, dec 0 1,
     dec 10 1, dec 0 1, dec 10 1,
     dec 0 1, dec 10 1, dec 10 1,
     dec 10 1, dec 10 1, dec 10 1,
     dec 5 1, dec 5 1, dec 5 1]"

definition indices :: "int list" where
  "indices =
    [0, 1, 2, 2, 3, 0,
     4, 6, 5, 6, 4, 7,
     4, 0, 3, 3, 7, 4,
     1, 5, 6, 6, 2, 1,
     3, 2, 6, 6, 7, 3,
     4, 5, 1, 1, 0, 4]"

subsection \<open>\<^verbatim>\<open>struct.pack\<close>\<close>

text \<open>
  The format strings \<^verbatim>\<open>'f'\<close> and \<^verbatim>\<open>'I'\<close> have no byte-order prefix, so the script packs
  in the byte order of the machine it runs on: \<open>byteorder\<close> is a parameter of the model
  (Python's \<^verbatim>\<open>sys.byteorder\<close>). The item sizes are those of C's \<^verbatim>\<open>float\<close> and
  \<^verbatim>\<open>unsigned int\<close>, four bytes each on every platform CPython supports; a single item
  is never padded.
\<close>

type_synonym byte = "8 word"

datatype byteorder = Little | Big

datatype os_error =
  FileNotFoundError | NotADirectoryError | PermissionError | IsADirectoryError | OtherOSError

datatype error = StructError | OSError os_error

text \<open>
  The conversion of a double to C's \<^verbatim>\<open>float\<close>: rounding to binary32 (24 significant
  bits, least normal exponent \<open>- 126\<close>).
\<close>

definition f32_round :: "pyfloat \<Rightarrow> pyfloat" where
  "f32_round x =
     (if fst x = 0 then (0, 0)
      else let (n, d) = scale2 \<bar>fst x\<bar> 1 (snd x);
               (m, q) = round_sig 24 (- 126) n d
           in (sgn (fst x) * m, q))"

text \<open>
  The exponent and fraction fields of a number already rounded to binary32, with
  \<open>\<bar>m\<bar> \<le> 2 ^ 24\<close> and \<open>- 149 \<le> q\<close>. Together they hold \<open>(q + 149) * 2 ^ 23 + \<bar>m\<bar>\<close>: for
  a subnormal, \<open>q = - 149\<close> and the fields are \<open>\<bar>m\<bar>\<close>; for a normal number the leading
  bit of \<open>\<bar>m\<bar>\<close> adds one to the biased exponent \<open>q + 149\<close>; for \<open>\<bar>m\<bar> = 2 ^ 24\<close> it adds
  two. From \<open>0x7F800000\<close> on the value does not fit, and the conversion gives infinity,
  whose fields are \<open>0x7F800000\<close>.
\<close>

definition f32_fields :: "pyfloat \<Rightarrow> int" where
  "f32_fields y =
     (let b = (if fst y = 0 then 0 else (snd y + 149) * 2 ^ 23 + \<bar>fst y\<bar>)
      in if 2139095040 \<le> b then 2139095040 else b)"

text \<open>
  The binary32 bit pattern of a double, as the C conversion to \<^verbatim>\<open>float\<close> stores it. The
  sign bit is that of the double, also when it rounds to zero.
\<close>

definition float32 :: "pyfloat \<Rightarrow> 32 word" where
  "float32 x = word_of_int ((if fst x < 0 then 2 ^ 31 else 0) + f32_fields (f32_round x))"

definition uint32 :: "int \<Rightarrow> 32 word option" where
  "uint32 i = (if 0 \<le> i \<and> i \<le> 4294967295 then Some (word_of_int i) else None)"

text \<open>The four bytes of a 32-bit item in memory.\<close>

definition word_bytes :: "byteorder \<Rightarrow> 32 word \<Rightarrow> byte list" where
  "word_bytes bo w =
     (let le = [ucast w, ucast (drop_bit 8 w), ucast (drop_bit 16 w), ucast (drop_bit 24 w)]
      in case bo of Little \<Rightarrow> le | Big \<Rightarrow> rev le)"

text \<open>
  \<^verbatim>\<open>struct.pack('f', v)\<close> and \<^verbatim>\<open>struct.pack('I', i)\<close>. Packing a float in native mode
  is the C conversion and never raises. An integer outside \<open>0 .. 2 ^ 32 - 1\<close> raises
  \<^verbatim>\<open>struct.error\<close>, here \<open>StructError\<close>.
\<close>

definition pack_f :: "byteorder \<Rightarrow> pyfloat \<Rightarrow> error + byte list" where
  "pack_f bo v = Inr (word_bytes bo (float32 v))"

definition pack_I :: "byteorder \<Rightarrow> int \<Rightarrow> error + byte list" where
  "pack_I bo i =
     (case uint32 i of None \<Rightarrow> Inl StructError | Some w \<Rightarrow> Inr (word_bytes bo w))"

subsection \<open>Building the buffer\<close>

text \<open>
  One loop \<^verbatim>\<open>for v in xs: data += struct.pack(fmt, v)\<close>: it stops at the first item that
  does not pack, as the exception would.
\<close>

fun pack_loop :: "('a \<Rightarrow> error + byte list) \<Rightarrow> 'a list \<Rightarrow> byte list \<Rightarrow> error + byte list" where
  "pack_loop pack [] data = Inr data"
| "pack_loop pack (v # vs) data =
     (case pack v of Inl e \<Rightarrow> Inl e | Inr b \<Rightarrow> pack_loop pack vs (data @ b))"

text \<open>Lines 56 to 73: the four loops in a row, starting from \<^verbatim>\<open>data = b''\<close>.\<close>

definition build_data :: "byteorder \<Rightarrow> error + byte list" where
  "build_data bo =
     (case pack_loop (pack_f bo) positions [] of Inl e \<Rightarrow> Inl e | Inr d1 \<Rightarrow>
      case pack_loop (pack_f bo) normals d1 of Inl e \<Rightarrow> Inl e | Inr d2 \<Rightarrow>
      case pack_loop (pack_f bo) colors d2 of Inl e \<Rightarrow> Inl e | Inr d3 \<Rightarrow>
      pack_loop (pack_I bo) indices d3)"

subsection \<open>Writing the file\<close>

text \<open>
  What the script can see and change outside itself: the directories below the working
  directory, the files with their contents, and the lines printed so far.
\<close>

record world =
  dirs :: "string set"
  files :: "string \<rightharpoonup> byte list"
  stdout :: "string list"

text \<open>
  What the machine decides: its byte order, and what the operating system answers to
  the requests of the script. \<open>open_refused\<close> is the error, if any, with which the
  system refuses to open a file for writing in an existing directory (the directory is
  not writable, the name is a directory, ...). \<open>write_failed\<close> is the error, if any,
  that stops the write (the disk is full, ...), with the number of bytes stored before it.
  \<open>print_failed\<close> is the error, if any, with which writing to the standard output fails
  (it has been closed at the other end, ...), with the number of lines of this run
  that were printed before it.
\<close>

record host =
  byteorder_of :: byteorder
  open_refused :: "os_error option"
  write_failed :: "(os_error \<times> nat) option"
  print_failed :: "(nat \<times> os_error) option"

definition dirname :: "string \<Rightarrow> string" where
  "dirname path = rev (drop 1 (dropWhile (\<lambda>c. c \<noteq> CHR ''/'') (rev path)))"

text \<open>
  \<^verbatim>\<open>open(path, 'wb')\<close>. When the directory of the path does not exist, it fails with
  \<open>NotADirectoryError\<close> if a regular file has that name and with \<open>FileNotFoundError\<close>
  otherwise; when the system refuses, it fails with that error. A failed \<^verbatim>\<open>open\<close>
  changes nothing. Otherwise the file exists from now on and is empty.
\<close>

definition open_wb :: "host \<Rightarrow> world \<Rightarrow> string \<Rightarrow> error + world" where
  "open_wb h w path =
     (if dirname path \<notin> dirs w then
        (if dirname path \<in> dom (files w) then Inl (OSError NotADirectoryError)
         else Inl (OSError FileNotFoundError))
      else case open_refused h of
             Some e \<Rightarrow> Inl (OSError e)
           | None \<Rightarrow> Inr (w\<lparr>files := (files w)(path \<mapsto> [])\<rparr>))"

text \<open>
  \<^verbatim>\<open>f.write(data)\<close> together with the close at the end of the \<^verbatim>\<open>with\<close> block, which is
  where the buffered bytes reach the file. When the system stops the write, the file
  keeps the bytes stored so far.
\<close>

definition write_close :: "host \<Rightarrow> world \<Rightarrow> string \<Rightarrow> byte list \<Rightarrow> error option \<times> world" where
  "write_close h w path data =
     (case write_failed h of
        Some (e, k) \<Rightarrow> (Some (OSError e), w\<lparr>files := (files w)(path \<mapsto> take k data)\<rparr>)
      | None \<Rightarrow> (None, w\<lparr>files := (files w)(path \<mapsto> data)\<rparr>))"

definition digit_char :: "nat \<Rightarrow> char" where
  "digit_char d = ''0123456789'' ! d"

function str_nat :: "nat \<Rightarrow> string" where
  "str_nat n = (if n < 10 then [digit_char n] else str_nat (n div 10) @ [digit_char (n mod 10)])"
  by pat_completeness auto
termination
  by (relation "measure id") auto

declare str_nat.simps [simp del]

text \<open>
  \<^verbatim>\<open>print(line)\<close>, the \<open>k\<close>-th of the run, counted from 0: it raises the error of the
  standard output if that fails at this line, and adds the line otherwise.
\<close>

definition print :: "host \<Rightarrow> nat \<Rightarrow> string \<Rightarrow> world \<Rightarrow> error + world" where
  "print h k line w =
     (case print_failed h of
        Some (k', e) \<Rightarrow>
          if k' = k then Inl (OSError e) else Inr (w\<lparr>stdout := stdout w @ [line]\<rparr>)
      | None \<Rightarrow> Inr (w\<lparr>stdout := stdout w @ [line]\<rparr>))"

text \<open>
  The whole script. The result is the uncaught exception, if any, and the world the run
  leaves behind. Nothing is caught anywhere, so the first error ends the run.
\<close>

definition main :: "host \<Rightarrow> world \<Rightarrow> error option \<times> world" where
  "main h w =
     (case build_data (byteorder_of h) of
        Inl e \<Rightarrow> (Some e, w)
      | Inr data \<Rightarrow>
          (case open_wb h w ''models/scene.bin'' of
             Inl e \<Rightarrow> (Some e, w)
           | Inr w1 \<Rightarrow>
               (case write_close h w1 ''models/scene.bin'' data of
                  (Some e, w2) \<Rightarrow> (Some e, w2)
                | (None, w2) \<Rightarrow>
                    (case print h 0 (''Generated scene.bin with '' @ str_nat (length data) @ '' bytes'')
                            w2 of
                       Inl e \<Rightarrow> (Some e, w2)
                     | Inr w3 \<Rightarrow>
                         (case print h 1
                                 ''Place this file in the models/ directory alongside scene.gltf''
                                 w3 of
                            Inl e \<Rightarrow> (Some e, w3)
                          | Inr w4 \<Rightarrow> (None, w4))))))"

subsection \<open>Reading the buffer back\<close>

text \<open>
  The claims speak of what a byte range of the file decodes as. The decoder is
  \<^verbatim>\<open>struct.unpack\<close> with the same formats on the same machine: the range is cut into
  groups of four bytes, each group is one 32-bit item, read as a binary32 number or as
  an unsigned integer.
\<close>

text \<open>Python's \<^verbatim>\<open>xs[a:b]\<close> for \<open>a \<le> b\<close>.\<close>

definition slice :: "nat \<Rightarrow> nat \<Rightarrow> 'a list \<Rightarrow> 'a list" where
  "slice a b xs = take (b - a) (drop a xs)"

fun chunks4 :: "'a list \<Rightarrow> 'a list list" where
  "chunks4 (a # b # c # d # rest) = [a, b, c, d] # chunks4 rest"
| "chunks4 _ = []"

fun le_word :: "byte list \<Rightarrow> 32 word option" where
  "le_word [b0, b1, b2, b3] =
     Some (ucast b0 OR push_bit 8 (ucast b1) OR push_bit 16 (ucast b2) OR push_bit 24 (ucast b3))"
| "le_word _ = None"

definition bytes_word :: "byteorder \<Rightarrow> byte list \<Rightarrow> 32 word option" where
  "bytes_word bo bs = le_word (case bo of Little \<Rightarrow> bs | Big \<Rightarrow> rev bs)"

text \<open>
  The number a binary32 bit pattern stands for: sign, eight exponent bits, 23 fraction
  bits. Infinities and NaNs (exponent field 255) have no value here, and both zeros
  have the value 0.
\<close>

definition f32_decode :: "32 word \<Rightarrow> pyfloat option" where
  "f32_decode w =
     (let b = uint w;
          s = (if b div 2 ^ 31 = 1 then - 1 else 1);
          ex = (b div 2 ^ 23) mod 256;
          fr = b mod 2 ^ 23
      in if ex = 255 then None
         else if ex = 0 then (if fr = 0 then Some (0, 0) else Some (s * fr, - 149))
         else Some (s * (2 ^ 23 + fr), ex - 150))"

definition unpack_f :: "byteorder \<Rightarrow> byte list \<Rightarrow> pyfloat option" where
  "unpack_f bo bs = Option.bind (bytes_word bo bs) f32_decode"

definition unpack_I :: "byteorder \<Rightarrow> byte list \<Rightarrow> int option" where
  "unpack_I bo bs = map_option uint (bytes_word bo bs)"

text \<open>The 32-bit items of a whole array; for the indices, if every element fits.\<close>

definition float_words :: "pyfloat list \<Rightarrow> 32 word list" where
  "float_words xs = map float32 xs"

definition index_words :: "int list \<Rightarrow> 32 word list option" where
  "index_words xs = those (map uint32 xs)"

subsection \<open>Vertices and triangles\<close>

text \<open>
  The arrays are flat: three consecutive components make one vertex attribute, three
  consecutive indices one triangle.
\<close>

fun chunks3 :: "'a list \<Rightarrow> 'a list list" where
  "chunks3 (a # b # c # rest) = [a, b, c] # chunks3 rest"
| "chunks3 _ = []"

definition sum_squares :: "pyfloat list \<Rightarrow> rat" where
  "sum_squares v = sum_list (map (\<lambda>x. fval x * fval x) v)"

definition dot :: "pyfloat list \<Rightarrow> pyfloat list \<Rightarrow> rat" where
  "dot u v = sum_list (map (\<lambda>(x, y). fval x * fval y) (zip u v))"

section \<open>Facts about the model\<close>

lemma le_word_bytes: "le_word (word_bytes Little w) = Some w"
  apply (simp add: word_bytes_def)
  apply (rule bit_word_eqI)
  subgoal for n
    apply (cases "n < 8"; cases "n < 16"; cases "n < 24")
    apply (auto simp add: bit_simps)
    done
  done

lemma bytes_word_bytes: "bytes_word bo (word_bytes bo w) = Some w"
  using le_word_bytes [of w] by (cases bo) (simp_all add: bytes_word_def word_bytes_def)

lemma length_word_bytes: "length (word_bytes bo w) = 4"
  by (cases bo) (simp_all add: word_bytes_def)

lemma pack_loop_f:
  "pack_loop (pack_f bo) xs acc = Inr (acc @ concat (map (word_bytes bo) (float_words xs)))"
  by (induction xs arbitrary: acc) (simp_all add: pack_f_def float_words_def)

lemma pack_loop_I:
  "index_words xs = Some ws \<Longrightarrow>
   pack_loop (pack_I bo) xs acc = Inr (acc @ concat (map (word_bytes bo) ws))"
proof (induction xs arbitrary: ws acc)
  case Nil
  then show ?case by (simp add: index_words_def)
next
  case (Cons x xs)
  from Cons.prems obtain w ws' where w: "uint32 x = Some w"
    and ws': "index_words xs = Some ws'" and ws: "ws = w # ws'"
    by (auto simp add: index_words_def split: option.splits)
  from Cons.IH [OF ws'] show ?case by (simp add: pack_I_def w ws)
qed

lemma chunks4_concat: "chunks4 (concat (map (word_bytes bo) ws)) = map (word_bytes bo) ws"
proof (induction ws)
  case Nil
  show ?case by simp
next
  case (Cons w ws)
  obtain a b c d where "word_bytes bo w = [a, b, c, d]"
    by (cases bo) (simp_all add: word_bytes_def)
  with Cons show ?case by simp
qed

lemma length_concat_words: "length (concat (map (word_bytes bo) ws)) = 4 * length ws"
  by (induction ws) (simp_all add: length_word_bytes)

lemma those_length: "those (map c xs) = Some ws \<Longrightarrow> length ws = length xs"
  by (induction xs arbitrary: ws) (auto split: option.splits)

lemma those_map_bind:
  "those (map c xs) = Some ws \<Longrightarrow> map g ws = map (\<lambda>x. Option.bind (c x) g) xs"
  by (induction xs arbitrary: ws) (auto split: option.splits)

lemma dec_consts:
  "dec (- 10) 1 = (- 4503599627370496, - 52)"
  "dec 10 1 = (4503599627370496, - 52)"
  "dec 0 1 = (0, 0)"
  "dec 5 1 = (4503599627370496, - 53)"
  "dec (- 577) 3 = (- 5197153969985552, - 53)"
  "dec 577 3 = (5197153969985552, - 53)"
  by code_simp+

lemma float32_consts:
  "float32 (dec (- 10) 1) = 0xBF800000"
  "float32 (dec 10 1) = 0x3F800000"
  "float32 (dec 0 1) = 0"
  "float32 (dec 5 1) = 0x3F000000"
  "float32 (dec (- 577) 3) = 0xBF13B646"
  "float32 (dec 577 3) = 0x3F13B646"
  by code_simp+

lemma f32_decode_consts:
  "f32_decode 0xBF800000 = Some (- 8388608, - 23)"
  "f32_decode 0x3F800000 = Some (8388608, - 23)"
  "f32_decode 0 = Some (0, 0)"
  "f32_decode 0x3F000000 = Some (8388608, - 24)"
  "f32_decode 0xBF13B646 = Some (- 9680454, - 24)"
  "f32_decode 0x3F13B646 = Some (9680454, - 24)"
  by code_simp+

lemma uint32_consts:
  "uint32 0 = Some 0" "uint32 1 = Some 1" "uint32 2 = Some 2" "uint32 3 = Some 3"
  "uint32 4 = Some 4" "uint32 5 = Some 5" "uint32 6 = Some 6" "uint32 7 = Some 7"
  by (simp_all add: uint32_def)

lemma fval_consts:
  "fval (dec (- 10) 1) = - 1"
  "fval (dec 10 1) = 1"
  "fval (dec 0 1) = 0"
  "fval (dec 5 1) = 1 / 2"
  "fval (dec (- 577) 3) = - (324822123124097 / 562949953421312)"
  "fval (dec 577 3) = 324822123124097 / 562949953421312"
  by (simp_all add: dec_consts fval_def pow2_def)

text \<open>What the stored pattern of each constant of the source decodes to.\<close>

lemma stored_consts:
  "map_option fval (f32_decode (float32 (dec (- 10) 1))) = Some (- 1)"
  "map_option fval (f32_decode (float32 (dec 10 1))) = Some 1"
  "map_option fval (f32_decode (float32 (dec 0 1))) = Some 0"
  "map_option fval (f32_decode (float32 (dec 5 1))) = Some (1 / 2)"
  "map_option fval (f32_decode (float32 (dec (- 577) 3))) = Some (- (4840227 / 8388608))"
  "map_option fval (f32_decode (float32 (dec 577 3))) = Some (4840227 / 8388608)"
  by (simp_all add: float32_consts f32_decode_consts fval_def pow2_def)

lemma indices_fit: "index_words indices \<noteq> None"
  by (simp add: index_words_def indices_def uint32_consts)

lemma length_positions: "length positions = 24" by (simp add: positions_def)
lemma length_normals: "length normals = 24" by (simp add: normals_def)
lemma length_colors: "length colors = 24" by (simp add: colors_def)
lemma length_indices: "length indices = 36" by (simp add: indices_def)

lemma build_data_words:
  "\<exists>iw. index_words indices = Some iw \<and> length iw = 36 \<and>
     (\<forall>bo. build_data bo =
        Inr (concat (map (word_bytes bo) (float_words positions))
          @ concat (map (word_bytes bo) (float_words normals))
          @ concat (map (word_bytes bo) (float_words colors))
          @ concat (map (word_bytes bo) iw)))"
proof -
  from indices_fit obtain iw where iw: "index_words indices = Some iw" by auto
  have l: "length iw = 36"
    using iw those_length [of uint32] by (simp add: index_words_def length_indices)
  have "\<forall>bo. build_data bo =
        Inr (concat (map (word_bytes bo) (float_words positions))
          @ concat (map (word_bytes bo) (float_words normals))
          @ concat (map (word_bytes bo) (float_words colors))
          @ concat (map (word_bytes bo) iw))"
    by (simp add: build_data_def pack_loop_f pack_loop_I [OF iw])
  with iw l show ?thesis by blast
qed

lemma length_float_words: "length (float_words xs) = length xs"
  by (simp add: float_words_def)

lemma decode_positions:
  "map (map_option fval \<circ> f32_decode) (float_words positions) = map (Some \<circ> fval) positions"
  by (simp add: float_words_def positions_def stored_consts fval_consts)

lemma decode_normals:
  "map (map_option fval \<circ> f32_decode) (float_words normals) =
   map (\<lambda>x. Some (sgn (fval x) * (4840227 / 8388608))) normals"
  by (simp add: float_words_def normals_def stored_consts fval_consts)

lemma decode_colors:
  "map (map_option fval \<circ> f32_decode) (float_words colors) = map (Some \<circ> fval) colors"
  by (simp add: float_words_def colors_def stored_consts fval_consts)

lemma decode_indices:
  "map (\<lambda>x. map_option uint (uint32 x)) indices = map Some indices"
  by (simp add: indices_def uint32_consts)

lemma normals_distance:
  "list_all (\<lambda>x. \<bar>sgn (fval x) * (4840227 / 8388608) - fval x\<bar> < 1 / 2 ^ 25) normals"
  by (simp add: normals_def fval_consts)

lemma dirname_scene: "dirname ''models/scene.bin'' = ''models''"
  by (simp add: dirname_def)

lemma build_data_length: "\<exists>d. build_data bo = Inr d \<and> length d = 432"
proof -
  from build_data_words obtain iw where
    l: "length iw = 36"
    and b: "\<forall>bo. build_data bo =
        Inr (concat (map (word_bytes bo) (float_words positions))
          @ concat (map (word_bytes bo) (float_words normals))
          @ concat (map (word_bytes bo) (float_words colors))
          @ concat (map (word_bytes bo) iw))"
    by blast
  show ?thesis
    by (simp add: b l length_concat_words length_float_words length_positions length_normals
        length_colors)
qed

lemma main_run:
  assumes "build_data (byteorder_of h) = Inr d"
  shows "main h w =
     (if ''models'' \<notin> dirs w then
        (Some (OSError (if ''models'' \<in> dom (files w) then NotADirectoryError
                        else FileNotFoundError)), w)
      else case open_refused h of
        Some e \<Rightarrow> (Some (OSError e), w)
      | None \<Rightarrow>
         (case write_failed h of
            Some (e, k) \<Rightarrow>
              (Some (OSError e), w\<lparr>files := (files w)(''models/scene.bin'' \<mapsto> take k d)\<rparr>)
          | None \<Rightarrow>
              (if \<exists>e. print_failed h = Some (0, e) then
                 (Some (OSError (snd (the (print_failed h)))),
                  w\<lparr>files := (files w)(''models/scene.bin'' \<mapsto> d)\<rparr>)
               else if \<exists>e. print_failed h = Some (1, e) then
                 (Some (OSError (snd (the (print_failed h)))),
                  w\<lparr>files := (files w)(''models/scene.bin'' \<mapsto> d),
                    stdout := stdout w @
                      [''Generated scene.bin with '' @ str_nat (length d) @ '' bytes'']\<rparr>)
               else
                 (None, w\<lparr>files := (files w)(''models/scene.bin'' \<mapsto> d),
                    stdout := stdout w @
                      [''Generated scene.bin with '' @ str_nat (length d) @ '' bytes'',
                       ''Place this file in the models/ directory alongside scene.gltf'']\<rparr>))))"
  by (auto simp add: main_def assms open_wb_def write_close_def print_def dirname_scene
      split: option.splits)

lemma str_nat_432: "str_nat 432 = ''432''"
  by code_simp

lemma slice_words:
  assumes "length pw = 24" "length nw = 24" "length cw = 24" "length iw = 36"
    and "d = concat (map (word_bytes bo) pw) @ concat (map (word_bytes bo) nw)
        @ concat (map (word_bytes bo) cw) @ concat (map (word_bytes bo) iw)"
  shows "slice 0 96 d = concat (map (word_bytes bo) pw)"
    and "slice 96 192 d = concat (map (word_bytes bo) nw)"
    and "slice 192 288 d = concat (map (word_bytes bo) cw)"
    and "slice 288 432 d = concat (map (word_bytes bo) iw)"
  using assms by (simp_all add: slice_def length_concat_words)

lemma unpack_f_words:
  "map (map_option fval \<circ> unpack_f bo) (chunks4 (concat (map (word_bytes bo) ws))) =
   map (map_option fval \<circ> f32_decode) ws"
  by (simp add: chunks4_concat unpack_f_def bytes_word_bytes comp_def)

lemma unpack_I_words:
  "index_words xs = Some ws \<Longrightarrow>
   map (unpack_I bo) (chunks4 (concat (map (word_bytes bo) ws))) =
   map (\<lambda>x. map_option uint (uint32 x)) xs"
proof -
  assume "index_words xs = Some ws"
  then have "map (Some \<circ> uint) ws = map (\<lambda>x. Option.bind (uint32 x) (Some \<circ> uint)) xs"
    unfolding index_words_def by (rule those_map_bind)
  moreover have "Option.bind (uint32 x) (Some \<circ> uint) = map_option uint (uint32 x)" for x
    by (cases "uint32 x") simp_all
  ultimately show ?thesis
    by (simp add: chunks4_concat unpack_I_def bytes_word_bytes comp_def)
qed

lemma buffer_layout_aux:
  "\<exists>d. build_data bo = Inr d \<and> length d = 432 \<and>
     map (map_option fval \<circ> unpack_f bo) (chunks4 (slice 0 96 d)) = map (Some \<circ> fval) positions \<and>
     map (map_option fval \<circ> unpack_f bo) (chunks4 (slice 96 192 d)) =
       map (\<lambda>x. Some (sgn (fval x) * (4840227 / 8388608))) normals \<and>
     map (map_option fval \<circ> unpack_f bo) (chunks4 (slice 192 288 d)) = map (Some \<circ> fval) colors \<and>
     map (unpack_I bo) (chunks4 (slice 288 432 d)) = map Some indices"
proof -
  from build_data_words obtain iw where
    w: "index_words indices = Some iw"
    and li: "length iw = 36"
    and b: "\<forall>bo. build_data bo =
        Inr (concat (map (word_bytes bo) (float_words positions))
          @ concat (map (word_bytes bo) (float_words normals))
          @ concat (map (word_bytes bo) (float_words colors))
          @ concat (map (word_bytes bo) iw))"
    by blast
  have l: "length (float_words positions) = 24" "length (float_words normals) = 24"
    "length (float_words colors) = 24"
    by (simp_all add: length_float_words length_positions length_normals length_colors)
  show ?thesis
    by (simp add: b l li length_concat_words slice_words [OF l li refl] unpack_f_words
        unpack_I_words [OF w] decode_positions decode_normals decode_colors decode_indices)
qed

lemma buffer_head:
  "\<exists>d. build_data bo = Inr d \<and> length d = 432 \<and> take 4 d = word_bytes bo 0xBF800000"
proof -
  from build_data_words obtain iw where
    li: "length iw = 36"
    and b: "\<forall>bo. build_data bo =
        Inr (concat (map (word_bytes bo) (float_words positions))
          @ concat (map (word_bytes bo) (float_words normals))
          @ concat (map (word_bytes bo) (float_words colors))
          @ concat (map (word_bytes bo) iw))"
    by blast
  obtain ws where pw: "float_words positions = 0xBF800000 # ws"
    by (simp add: float_words_def positions_def float32_consts)
  have "length (concat (map (word_bytes bo) (float_words positions))
          @ concat (map (word_bytes bo) (float_words normals))
          @ concat (map (word_bytes bo) (float_words colors))
          @ concat (map (word_bytes bo) iw)) = 432"
    by (simp add: li length_concat_words length_float_words length_positions length_normals
        length_colors)
  moreover have "take 4 (concat (map (word_bytes bo) (float_words positions))
          @ concat (map (word_bytes bo) (float_words normals))
          @ concat (map (word_bytes bo) (float_words colors))
          @ concat (map (word_bytes bo) iw))
      = word_bytes bo 0xBF800000"
    by (simp add: pw length_word_bytes)
  ultimately show ?thesis using b by blast
qed

lemma build_data_Big_head: "map_sum id (take 4) (build_data Big) = Inr [0xBF, 0x80, 0, 0]"
proof -
  from buffer_head [of Big] obtain d where
    "build_data Big = Inr d" "take 4 d = word_bytes Big 0xBF800000"
    by blast
  then show ?thesis by (simp add: word_bytes_def)
qed

lemma build_data_Little_head: "map_sum id (take 4) (build_data Little) = Inr [0, 0, 0x80, 0xBF]"
proof -
  from buffer_head [of Little] obtain d where
    "build_data Little = Inr d" "take 4 d = word_bytes Little 0xBF800000"
    by blast
  then show ?thesis by (simp add: word_bytes_def)
qed

lemma first_item:
  "\<exists>d. build_data bo = Inr d \<and> length d = 432 \<and>
     map_option fval (unpack_f bo (take 4 d)) = Some (- 1)"
proof -
  have "map_option fval (unpack_f bo (word_bytes bo 0xBF800000)) = Some (- 1)"
    by (simp add: unpack_f_def bytes_word_bytes f32_decode_consts fval_def pow2_def)
  with buffer_head [of bo] show ?thesis by auto
qed

section \<open>The constant arrays\<close>

lemma indices_range: "list_all (\<lambda>i. 0 \<le> i \<and> i \<le> 7) indices"
  by (simp add: indices_def)

text \<open>
  Claim C3. The three float arrays have 24 elements each (8 vertices of 3 components),
  \<open>indices\<close> has 36 elements, every index lies between 0 and 7, and the length of
  \<open>indices\<close> is a multiple of 3.
\<close>

theorem arrays_invariant:
  "length positions = 24 \<and> length normals = 24 \<and> length colors = 24 \<and>
   length indices = 36 \<and> (\<forall>i \<in> set indices. 0 \<le> i \<and> i \<le> 7) \<and> 3 dvd length indices"
  using indices_range
  by (simp add: length_positions length_normals length_colors length_indices list_all_iff)

text \<open>The index 5 occurs in \<open>indices\<close> and is within the range, by the theorem.\<close>

theorem arrays_invariant_witness:
  "(5 :: int) \<in> set indices \<and> (0 :: int) \<le> 5 \<and> (5 :: int) \<le> 7"
  using arrays_invariant by (simp add: indices_def)

text \<open>
  Claim C9. Cutting \<open>indices\<close> into its consecutive triples (elements 0 to 2, 3 to 5, up
  to 33 to 35) gives 12 triangles, and the three vertex indices of each are pairwise
  distinct: no triangle is degenerate.
\<close>

theorem triangles_not_degenerate:
  "list_all distinct (chunks3 indices) \<and> length (chunks3 indices) = 12 \<and>
   concat (chunks3 indices) = indices"
  by (simp add: indices_def)

lemma positions_normals:
  "list_all2 (\<lambda>p n. (fval p = - 1 \<or> fval p = 1) \<and> fval n = fval (dec 577 3) * sgn (fval p))
     positions normals"
  by (simp add: positions_def normals_def fval_consts)

lemma normals_outward:
  "list_all2 (\<lambda>p n. 0 < dot p n) (chunks3 positions) (chunks3 normals)"
  by (simp add: positions_def normals_def dot_def fval_consts)

text \<open>
  Claim C10. Every component of \<open>positions\<close> is \<open>- 1.0\<close> or \<open>1.0\<close>, and the component of
  \<open>normals\<close> at the same place is \<open>0.577\<close> times the sign of that position component. So
  every vertex normal has the sign pattern of its position and points away from the
  origin: its scalar product with the position is positive.
\<close>

theorem normals_follow_positions:
  "(\<forall>i < 24. (fval (positions ! i) = - 1 \<or> fval (positions ! i) = 1) \<and>
      fval (normals ! i) = fval (dec 577 3) * sgn (fval (positions ! i))) \<and>
   (\<forall>v < 8. 0 < dot (chunks3 positions ! v) (chunks3 normals ! v))"
proof -
  have "length (chunks3 positions) = 8" by (simp add: positions_def)
  with positions_normals normals_outward show ?thesis
    by (simp add: list_all2_conv_all_nth length_positions)
qed

text \<open>Component 3 and vertex 1, by the theorem.\<close>

theorem normals_follow_positions_witness:
  "(3 :: nat) < 24 \<and> fval (positions ! 3) = 1 \<and>
   fval (normals ! 3) = fval (dec 577 3) * sgn (fval (positions ! 3)) \<and>
   (1 :: nat) < 8 \<and> 0 < dot (chunks3 positions ! 1) (chunks3 normals ! 1)"
proof -
  have i: "(3 :: nat) < 24" and v: "(1 :: nat) < 8" by simp_all
  from normals_follow_positions i
  have a: "fval (normals ! 3) = fval (dec 577 3) * sgn (fval (positions ! 3))" by blast
  from normals_follow_positions v
  have b: "0 < dot (chunks3 positions ! 1) (chunks3 normals ! 1)" by blast
  have c: "fval (positions ! 3) = 1" by (simp add: positions_def fval_consts)
  from a b c show ?thesis by simp
qed

text \<open>
  Claim C4 says that every normal has length exactly one: the squares of its three
  components add up to 1. The first vertex refutes it: \<open>3 * 0.577\<^sup>2\<close> is about
  \<open>0.998787\<close>.
\<close>

theorem normals_unit_counterexample:
  "sum_squares (hd (chunks3 normals)) \<noteq> 1"
  by (simp add: normals_def sum_squares_def fval_consts)

text \<open>
  Claim C4 as amended. Every normal has length nearly one: the squares of its three
  components add up to less than 1, and fall short of 1 by less than \<open>0.0013\<close>.
\<close>

theorem normals_nearly_unit:
  "list_all (\<lambda>n. sum_squares n < 1 \<and> 1 - sum_squares n < 13 / 10000) (chunks3 normals) \<and>
   length (chunks3 normals) = 8"
  by (simp add: normals_def sum_squares_def fval_consts)

section \<open>The buffer and the file\<close>

text \<open>
  Claim C1. On every machine the four loops succeed, and the buffer they build has
  exactly 432 bytes; a run that ends without an exception has written exactly these 432
  bytes to \<^verbatim>\<open>models/scene.bin\<close> and reported the count 432.
\<close>

theorem buffer_length:
  "\<exists>d. build_data (byteorder_of h) = Inr d \<and> length d = 432 \<and>
     (\<forall>w w'. main h w = (None, w') \<longrightarrow>
        files w' ''models/scene.bin'' = Some d \<and>
        stdout w' = stdout w @ [''Generated scene.bin with 432 bytes'',
          ''Place this file in the models/ directory alongside scene.gltf''])"
proof -
  from build_data_length obtain d where d: "build_data (byteorder_of h) = Inr d" "length d = 432"
    by blast
  have "files w' ''models/scene.bin'' = Some d \<and>
        stdout w' = stdout w @ [''Generated scene.bin with 432 bytes'',
          ''Place this file in the models/ directory alongside scene.gltf'']"
    if "main h w = (None, w')" for w w'
    using that
    by (auto simp add: main_run [OF d(1)] d(2) str_nat_432 split: if_splits option.splits)
  with d show ?thesis by blast
qed

text \<open>
  A little-endian machine, an empty working directory with a \<^verbatim>\<open>models\<close> folder: the run
  succeeds, and by the theorem the file has 432 bytes.
\<close>

theorem buffer_length_witness:
  "\<exists>w'. main \<lparr>byteorder_of = Little, open_refused = None, write_failed = None,
           print_failed = None\<rparr>
           \<lparr>dirs = {''models''}, files = Map.empty, stdout = []\<rparr> = (None, w') \<and>
        map_option length (files w' ''models/scene.bin'') = Some 432"
proof -
  let ?h = "\<lparr>byteorder_of = Little, open_refused = None, write_failed = None,
           print_failed = None\<rparr>"
  let ?w = "\<lparr>dirs = {''models''}, files = Map.empty, stdout = []\<rparr>"
  from buffer_length [of ?h] obtain d where d: "build_data (byteorder_of ?h) = Inr d" "length d = 432"
    and m: "\<And>w w'. main ?h w = (None, w') \<Longrightarrow> files w' ''models/scene.bin'' = Some d"
    by blast
  have "\<exists>w'. main ?h ?w = (None, w')" by (simp add: main_run [OF d(1)])
  then obtain w' where w': "main ?h ?w = (None, w')" ..
  from m [OF w'] d(2) w' show ?thesis by auto
qed

text \<open>
  Claim C2 says that the four byte ranges decode as the values of the four constant
  arrays. For \<open>normals\<close> that fails: \<open>0.577\<close> is not a binary32 number, and what the bytes
  96 to 191 hold is not the constants. On a little-endian machine the first stored
  normal component is \<open>- 4840227 / 8388608\<close>, the constant is the double \<open>- 0.577\<close>.
\<close>

theorem normals_decode_counterexample:
  "map_sum id (map (map_option fval \<circ> unpack_f Little) \<circ> chunks4 \<circ> slice 96 192)
     (build_data Little) \<noteq> Inr (map (Some \<circ> fval) normals) \<and>
   map_sum id (map (map_option fval \<circ> unpack_f Little) \<circ> chunks4 \<circ> slice 96 100)
     (build_data Little) = Inr [Some (- (4840227 / 8388608))] \<and>
   fval (normals ! 0) = - (324822123124097 / 562949953421312)"
proof -
  from buffer_layout_aux [of Little] obtain d where d: "build_data Little = Inr d"
    and l: "length d = 432"
    and n: "map (map_option fval \<circ> unpack_f Little) (chunks4 (slice 96 192 d)) =
       map (\<lambda>x. Some (sgn (fval x) * (4840227 / 8388608))) normals"
    by blast
  have a: "map (\<lambda>x. Some (sgn (fval x) * (4840227 / 8388608))) normals \<noteq>
           map (Some \<circ> fval) normals"
    by (simp add: normals_def fval_consts)
  from l have "length (drop 96 d) = 336" by simp
  then obtain b0 b1 b2 b3 rest where r: "drop 96 d = b0 # b1 # b2 # b3 # rest"
    by (cases "drop 96 d" rule: chunks4.cases) simp_all
  then have s: "slice 96 192 d = b0 # b1 # b2 # b3 # take 92 rest"
    and s': "slice 96 100 d = [b0, b1, b2, b3]"
    by (simp_all add: slice_def)
  from n have "hd (map (map_option fval \<circ> unpack_f Little) (chunks4 (slice 96 192 d))) =
      Some (- (4840227 / 8388608))"
    by (simp add: normals_def fval_consts)
  then have c: "map_option fval (unpack_f Little [b0, b1, b2, b3]) = Some (- (4840227 / 8388608))"
    by (simp add: s)
  have e: "fval (normals ! 0) = - (324822123124097 / 562949953421312)"
    by (simp add: normals_def fval_consts)
  from a n c e show ?thesis by (simp add: d s')
qed

text \<open>
  Claim C2 as amended. On every machine, read back with the byte order it was written
  in, the bytes 0 to 95 of the buffer decode exactly as the 24 values of \<open>positions\<close>,
  in order, and the bytes 192 to 287 exactly as the 24 values of \<open>colors\<close>. The bytes
  96 to 191 decode as the binary32 numbers nearest to the 24 values of \<open>normals\<close>, in
  order: each is \<open>4840227 / 8388608\<close> (that is \<open>9680454 * 2 ^ - 24\<close>, about
  \<open>0.57700002\<close>) with the sign of the constant, and is less than \<open>2 ^ - 25\<close>, half the
  spacing of the binary32 numbers there, away from it. The bytes 288 to 431 decode as
  the 36 values of \<open>indices\<close>, in order.
\<close>

theorem buffer_layout:
  "\<exists>d. build_data bo = Inr d \<and>
     map (map_option fval \<circ> unpack_f bo) (chunks4 (slice 0 96 d)) = map (Some \<circ> fval) positions \<and>
     map (map_option fval \<circ> unpack_f bo) (chunks4 (slice 96 192 d)) =
       map (\<lambda>x. Some (sgn (fval x) * (4840227 / 8388608))) normals \<and>
     list_all (\<lambda>x. \<bar>sgn (fval x) * (4840227 / 8388608) - fval x\<bar> < 1 / 2 ^ 25) normals \<and>
     (4840227 / 8388608 :: rat) = fval (9680454, - 24) \<and>
     map (map_option fval \<circ> unpack_f bo) (chunks4 (slice 192 288 d)) = map (Some \<circ> fval) colors \<and>
     map (unpack_I bo) (chunks4 (slice 288 432 d)) = map Some indices"
proof -
  have "(4840227 / 8388608 :: rat) = fval (9680454, - 24)"
    by (simp add: fval_def pow2_def)
  with buffer_layout_aux [of bo] normals_distance show ?thesis by blast
qed



section \<open>Runs of the script\<close>

text \<open>
  Claim C8. Run in a directory that has a \<^verbatim>\<open>models\<close> folder, on a system that lets the
  file be opened and written, the script leaves the file \<^verbatim>\<open>models/scene.bin\<close> of
  exactly 432 bytes, whose first four bytes, read as a binary32 number on the same
  machine, are \<open>- 1.0\<close>; and it ends without an exception when the two lines can be
  printed.
\<close>

theorem scene_file:
  assumes "''models'' \<in> dirs w" and "open_refused h = None" and "write_failed h = None"
  shows "\<exists>d r w'. main h w = (r, w') \<and> files w' ''models/scene.bin'' = Some d \<and>
           length d = 432 \<and>
           map_option fval (unpack_f (byteorder_of h) (take 4 d)) = Some (- 1) \<and>
           (print_failed h = None \<longrightarrow> r = None)"
proof -
  from first_item [of "byteorder_of h"]
  obtain d where d: "build_data (byteorder_of h) = Inr d" "length d = 432"
    "map_option fval (unpack_f (byteorder_of h) (take 4 d)) = Some (- 1)"
    by blast
  with assms show ?thesis by (auto simp add: main_run [OF d(1)])
qed

text \<open>
  A big-endian machine and an empty working directory with a \<^verbatim>\<open>models\<close> folder: the
  run ends without an exception.
\<close>

theorem scene_file_witness:
  "\<exists>d w'. main \<lparr>byteorder_of = Big, open_refused = None, write_failed = None,
               print_failed = None\<rparr>
             \<lparr>dirs = {''models''}, files = Map.empty, stdout = []\<rparr> = (None, w') \<and>
          files w' ''models/scene.bin'' = Some d \<and> length d = 432 \<and>
          map_option fval (unpack_f Big (take 4 d)) = Some (- 1)"
  using scene_file [of "\<lparr>dirs = {''models''}, files = Map.empty, stdout = []\<rparr>"
      "\<lparr>byteorder_of = Big, open_refused = None, write_failed = None, print_failed = None\<rparr>"]
  by auto

text \<open>
  Claim C6 says that any two runs of the unchanged script produce the same bytes. Two
  runs on machines of different byte order refute it: both succeed in the same fresh
  directory, and the files they leave differ.
\<close>

theorem determinism_counterexample:
  "build_data Little \<noteq> build_data Big \<and>
   fst (main \<lparr>byteorder_of = Little, open_refused = None, write_failed = None,
          print_failed = None\<rparr>
        \<lparr>dirs = {''models''}, files = Map.empty, stdout = []\<rparr>) = None \<and>
   fst (main \<lparr>byteorder_of = Big, open_refused = None, write_failed = None,
          print_failed = None\<rparr>
        \<lparr>dirs = {''models''}, files = Map.empty, stdout = []\<rparr>) = None \<and>
   files (snd (main \<lparr>byteorder_of = Little, open_refused = None, write_failed = None,
          print_failed = None\<rparr>
        \<lparr>dirs = {''models''}, files = Map.empty, stdout = []\<rparr>)) ''models/scene.bin'' \<noteq>
   files (snd (main \<lparr>byteorder_of = Big, open_refused = None, write_failed = None,
          print_failed = None\<rparr>
        \<lparr>dirs = {''models''}, files = Map.empty, stdout = []\<rparr>)) ''models/scene.bin''"
proof -
  from build_data_length obtain dl where dl: "build_data Little = Inr dl" by blast
  from build_data_length obtain db where db: "build_data Big = Inr db" by blast
  from build_data_Little_head build_data_Big_head dl db
  have "take 4 dl = [0, 0, 0x80, 0xBF]" "take 4 db = [0xBF, 0x80, 0, 0]" by simp_all
  then have ne: "dl \<noteq> db" by auto
  have hl: "build_data (byteorder_of \<lparr>byteorder_of = Little, open_refused = None,
      write_failed = None, print_failed = None\<rparr>) = Inr dl"
    by (simp add: dl)
  have hb: "build_data (byteorder_of \<lparr>byteorder_of = Big, open_refused = None,
      write_failed = None, print_failed = None\<rparr>) = Inr db"
    by (simp add: db)
  from ne show ?thesis by (simp add: main_run [OF hl] main_run [OF hb] dl db)
qed

text \<open>
  Claim C6 as amended. The script is deterministic on machines of one byte order. Two
  runs on machines of the same byte order build the same buffer, and when both end
  without an exception they leave exactly this buffer in \<^verbatim>\<open>models/scene.bin\<close> and print
  the same two lines, whatever the directories, the files (an older \<^verbatim>\<open>scene.bin\<close>
  included) and the earlier output were.
\<close>

theorem run_deterministic:
  assumes "byteorder_of h1 = byteorder_of h2"
  shows "\<exists>d. build_data (byteorder_of h1) = Inr d \<and> build_data (byteorder_of h2) = Inr d \<and>
         (\<forall>w1 w2 w1' w2'. main h1 w1 = (None, w1') \<longrightarrow> main h2 w2 = (None, w2') \<longrightarrow>
            files w1' ''models/scene.bin'' = Some d \<and>
            files w2' ''models/scene.bin'' = Some d \<and>
            drop (length (stdout w1)) (stdout w1') = drop (length (stdout w2)) (stdout w2'))"
proof -
  from build_data_length obtain d where d1: "build_data (byteorder_of h1) = Inr d" by blast
  with assms have d2: "build_data (byteorder_of h2) = Inr d" by simp
  have "files w1' ''models/scene.bin'' = Some d \<and>
        files w2' ''models/scene.bin'' = Some d \<and>
        drop (length (stdout w1)) (stdout w1') = drop (length (stdout w2)) (stdout w2')"
    if "main h1 w1 = (None, w1')" "main h2 w2 = (None, w2')" for w1 w2 w1' w2'
    using that
    by (auto simp add: main_run [OF d1] main_run [OF d2] split: if_splits option.splits)
  with d1 d2 show ?thesis by blast
qed

text \<open>
  Two runs on a little-endian machine, one in a fresh directory, one where an older
  \<^verbatim>\<open>scene.bin\<close> of three bytes exists: the file is the same afterwards.
\<close>

theorem run_deterministic_witness:
  "\<exists>w1' w2'.
     main \<lparr>byteorder_of = Little, open_refused = None, write_failed = None,
            print_failed = None\<rparr>
       \<lparr>dirs = {''models''}, files = Map.empty, stdout = []\<rparr> = (None, w1') \<and>
     main \<lparr>byteorder_of = Little, open_refused = None, write_failed = None,
            print_failed = None\<rparr>
       \<lparr>dirs = {''models'', ''old''}, files = [''models/scene.bin'' \<mapsto> [1, 2, 3]],
        stdout = [''earlier output'']\<rparr> = (None, w2') \<and>
     files w1' ''models/scene.bin'' = files w2' ''models/scene.bin''"
proof -
  let ?h = "\<lparr>byteorder_of = Little, open_refused = None, write_failed = None,
    print_failed = None\<rparr>"
  let ?w1 = "\<lparr>dirs = {''models''}, files = Map.empty, stdout = []\<rparr>"
  let ?w2 = "\<lparr>dirs = {''models'', ''old''}, files = [''models/scene.bin'' \<mapsto> [1, 2, 3 :: byte]],
        stdout = [''earlier output'']\<rparr>"
  from build_data_length obtain d where d: "build_data (byteorder_of ?h) = Inr d" by blast
  obtain w1' where w1: "main ?h ?w1 = (None, w1')" by (simp add: main_run [OF d])
  obtain w2' where w2: "main ?h ?w2 = (None, w2')" by (simp add: main_run [OF d])
  from run_deterministic [of ?h ?h] w1 w2
  have "files w1' ''models/scene.bin'' = files w2' ''models/scene.bin''" by force
  with w1 w2 show ?thesis by blast
qed

text \<open>
  Claim C7 says that a missing or unwritable \<^verbatim>\<open>models\<close> directory makes the run fail
  with an uncaught file system error, before a file is created or a line printed, and
  that there are no other error paths. There is another one: with \<^verbatim>\<open>models\<close> present
  and writable, a run whose first \<^verbatim>\<open>print\<close> cannot write to the standard output ends
  with that uncaught error, after the file of 432 bytes has been written and without
  having printed anything.
\<close>

theorem print_error_counterexample:
  "''models'' \<in> dirs \<lparr>dirs = {''models''}, files = Map.empty, stdout = []\<rparr> \<and>
   fst (main \<lparr>byteorder_of = Little, open_refused = None, write_failed = None,
          print_failed = Some (0, OtherOSError)\<rparr>
        \<lparr>dirs = {''models''}, files = Map.empty, stdout = []\<rparr>) =
     Some (OSError OtherOSError) \<and>
   map_option length
     (files (snd (main \<lparr>byteorder_of = Little, open_refused = None, write_failed = None,
          print_failed = Some (0, OtherOSError)\<rparr>
        \<lparr>dirs = {''models''}, files = Map.empty, stdout = []\<rparr>)) ''models/scene.bin'') =
     Some 432 \<and>
   stdout (snd (main \<lparr>byteorder_of = Little, open_refused = None, write_failed = None,
          print_failed = Some (0, OtherOSError)\<rparr>
        \<lparr>dirs = {''models''}, files = Map.empty, stdout = []\<rparr>)) = []"
proof -
  from build_data_length obtain d where d: "build_data Little = Inr d" "length d = 432"
    by blast
  have h: "build_data (byteorder_of \<lparr>byteorder_of = Little, open_refused = None,
      write_failed = None, print_failed = Some (0, OtherOSError)\<rparr>) = Inr d"
    by (simp add: d)
  show ?thesis by (simp add: main_run [OF h] d)
qed

text \<open>
  Claim C7 as amended. When \<^verbatim>\<open>models\<close> does not exist, the run ends with the uncaught
  error of \<^verbatim>\<open>open\<close> (\<open>NotADirectoryError\<close> if a regular file has that name,
  \<open>FileNotFoundError\<close> otherwise); when the system refuses to open the file in it for
  writing (the directory is not writable), the run ends with that uncaught error. In
  both cases the world is as before: no file has been created and nothing has been
  printed. The other error paths are the write of the file and the two calls of
  \<^verbatim>\<open>print\<close>: a run fails exactly when the directory is missing, the open is refused,
  the write fails or one of the two prints fails. Every exception that ends a run is
  an error of the operating system, packing never fails, and a run that fails in
  \<^verbatim>\<open>open\<close> or in the write has printed nothing.
\<close>

theorem filesystem_errors:
  "(''models'' \<notin> dirs w \<longrightarrow>
      main h w = (Some (OSError (if ''models'' \<in> dom (files w) then NotADirectoryError
                                  else FileNotFoundError)), w)) \<and>
   (''models'' \<in> dirs w \<longrightarrow> open_refused h = Some e \<longrightarrow> main h w = (Some (OSError e), w)) \<and>
   (\<forall>x w'. main h w = (Some x, w') \<longrightarrow> (\<exists>e'. x = OSError e')) \<and>
   (\<forall>x w'. main h w = (Some x, w') \<longrightarrow>
      ''models'' \<notin> dirs w \<or> open_refused h \<noteq> None \<or> write_failed h \<noteq> None \<longrightarrow>
      stdout w' = stdout w) \<and>
   (fst (main h w) \<noteq> None \<longleftrightarrow>
      ''models'' \<notin> dirs w \<or> open_refused h \<noteq> None \<or> write_failed h \<noteq> None \<or>
      (\<exists>k e'. print_failed h = Some (k, e') \<and> k < 2)) \<and>
   (\<exists>d. build_data (byteorder_of h) = Inr d)"
proof -
  from build_data_length obtain d where d: "build_data (byteorder_of h) = Inr d" by blast
  have "k < 2 \<longleftrightarrow> k = 0 \<or> k = 1" for k :: nat by auto
  then show ?thesis
    by (auto simp add: main_run [OF d] d split: if_splits option.splits)
qed

text \<open>
  A run without a \<^verbatim>\<open>models\<close> folder, a run where \<^verbatim>\<open>models\<close> is a regular file, and a
  run where the folder is not writable.
\<close>

theorem filesystem_errors_witness:
  "main \<lparr>byteorder_of = Little, open_refused = None, write_failed = None, print_failed = None\<rparr>
     \<lparr>dirs = {}, files = Map.empty, stdout = []\<rparr> =
     (Some (OSError FileNotFoundError), \<lparr>dirs = {}, files = Map.empty, stdout = []\<rparr>) \<and>
   main \<lparr>byteorder_of = Little, open_refused = None, write_failed = None, print_failed = None\<rparr>
     \<lparr>dirs = {}, files = [''models'' \<mapsto> []], stdout = []\<rparr> =
     (Some (OSError NotADirectoryError),
      \<lparr>dirs = {}, files = [''models'' \<mapsto> []], stdout = []\<rparr>) \<and>
   main \<lparr>byteorder_of = Little, open_refused = Some PermissionError, write_failed = None,
          print_failed = None\<rparr>
     \<lparr>dirs = {''models''}, files = Map.empty, stdout = []\<rparr> =
     (Some (OSError PermissionError), \<lparr>dirs = {''models''}, files = Map.empty, stdout = []\<rparr>)"
  using
    filesystem_errors [of "\<lparr>dirs = {}, files = Map.empty, stdout = []\<rparr>"
      "\<lparr>byteorder_of = Little, open_refused = None, write_failed = None, print_failed = None\<rparr>"
      PermissionError]
    filesystem_errors [of "\<lparr>dirs = {}, files = [''models'' \<mapsto> []], stdout = []\<rparr>"
      "\<lparr>byteorder_of = Little, open_refused = None, write_failed = None, print_failed = None\<rparr>"
      PermissionError]
    filesystem_errors [of "\<lparr>dirs = {''models''}, files = Map.empty, stdout = []\<rparr>"
      "\<lparr>byteorder_of = Little, open_refused = Some PermissionError, write_failed = None,
        print_failed = None\<rparr>"
      PermissionError]
  by simp

end
